theory Spec2Isabelle
  imports Complex_Main "HOL-Library.Sublist"
begin

section \<open>Data model (app/models/ticket.py, app/config.py)\<close>

text \<open>
  The three enumerations of \<^verbatim>\<open>app/models/ticket.py\<close>. Each is declared as
  \<^verbatim>\<open>class X(str, enum.Enum)\<close>: a member is a Python string, it compares equal to
  its value and hashes like it. The \<open>_value\<close> functions give the member's string.
\<close>

datatype IntentType =
  BILLING | TECHNICAL_ISSUE | ACCOUNT_ACCESS | CANCELLATION | FEATURE_REQUEST | GENERAL_INQUIRY

primrec IntentType_value :: "IntentType \<Rightarrow> string" where
  "IntentType_value BILLING = ''billing''"
| "IntentType_value TECHNICAL_ISSUE = ''technical_issue''"
| "IntentType_value ACCOUNT_ACCESS = ''account_access''"
| "IntentType_value CANCELLATION = ''cancellation''"
| "IntentType_value FEATURE_REQUEST = ''feature_request''"
| "IntentType_value GENERAL_INQUIRY = ''general_inquiry''"

datatype UrgencyLevel = LOW | MEDIUM | HIGH | CRITICAL

primrec UrgencyLevel_value :: "UrgencyLevel \<Rightarrow> string" where
  "UrgencyLevel_value LOW = ''low''"
| "UrgencyLevel_value MEDIUM = ''medium''"
| "UrgencyLevel_value HIGH = ''high''"
| "UrgencyLevel_value CRITICAL = ''critical''"

datatype TicketStatus = PENDING_REVIEW | APPROVED | SENT | ESCALATED | CLOSED

text \<open>
  The fields of \<^verbatim>\<open>Settings\<close> (app/config.py) that concern the decision policy. A Python
  \<^verbatim>\<open>float\<close> is modelled by the real number it denotes. The policies only compare
  confidences with thresholds, and comparing two finite floats is comparing their values.
  Where the code does arithmetic on floats (the reply-confidence heuristic), every literal
  and every result is rounded to binary64 by \<open>float64\<close> below. The object
  \<^verbatim>\<open>settings\<close> is read from the environment at start-up, so every function that reads
  it takes it as the parameter \<open>cfg\<close>.
\<close>

record Settings =
  auto_send_threshold :: real
  escalation_threshold :: real
  sla_low :: int
  sla_medium :: int
  sla_high :: int
  sla_critical :: int

definition default_settings :: Settings where
  "default_settings =
     \<lparr>auto_send_threshold = 0.8, escalation_threshold = 0.6,
      sla_low = 48, sla_medium = 24, sla_high = 8, sla_critical = 2\<rparr>"

section \<open>RouterService (app/services/router.py)\<close>

text \<open>
  \<^verbatim>\<open>d.get(key, default)\<close> on a dictionary written as an association list. The keys
  of both class-level tables are members of a \<^verbatim>\<open>str\<close> enumeration, so the tables are
  keyed by the members' strings, and the functions below take the intent and the urgency as
  the string they are at run time. A caller holding a member \<open>u\<close> passes
  \<open>UrgencyLevel_value u\<close>; any other string is a key the tables do not have.
\<close>

definition dict_get :: "('k \<times> 'v) list \<Rightarrow> 'k \<Rightarrow> 'v \<Rightarrow> 'v" where
  "dict_get d k dflt = (case map_of d k of None \<Rightarrow> dflt | Some v \<Rightarrow> v)"

definition INTENT_TEAM_MAP :: "(string \<times> string) list" where
  "INTENT_TEAM_MAP =
     [(IntentType_value BILLING, ''Finance Team''),
      (IntentType_value TECHNICAL_ISSUE, ''Tech Support''),
      (IntentType_value ACCOUNT_ACCESS, ''Account Services''),
      (IntentType_value CANCELLATION, ''Retention Team''),
      (IntentType_value FEATURE_REQUEST, ''Product Team''),
      (IntentType_value GENERAL_INQUIRY, ''General Support'')]"

definition SLA_HOURS :: "(string \<times> int) list" where
  "SLA_HOURS =
     [(UrgencyLevel_value LOW, 48),
      (UrgencyLevel_value MEDIUM, 24),
      (UrgencyLevel_value HIGH, 8),
      (UrgencyLevel_value CRITICAL, 2)]"

text \<open>\<^verbatim>\<open>route_ticket\<close>: the log calls have no effect on the result and are left out.\<close>

definition route_ticket :: "string \<Rightarrow> string \<Rightarrow> string" where
  "route_ticket intent urgency =
     (let team = dict_get INTENT_TEAM_MAP intent ''General Support'' in
      if urgency = UrgencyLevel_value CRITICAL then team @ '' - ESCALATED'' else team)"

text \<open>\<^verbatim>\<open>get_sla_hours\<close> reads the class-level table; it does not read \<^verbatim>\<open>settings\<close>.\<close>

definition get_sla_hours :: "string \<Rightarrow> int" where
  "get_sla_hours urgency = dict_get SLA_HOURS urgency 24"

definition should_auto_send :: "Settings \<Rightarrow> real \<Rightarrow> string \<Rightarrow> bool" where
  "should_auto_send cfg confidence urgency =
     (if urgency \<in> set [UrgencyLevel_value CRITICAL, UrgencyLevel_value HIGH] then False
      else if confidence \<ge> auto_send_threshold cfg then True
      else False)"

definition should_escalate :: "Settings \<Rightarrow> real \<Rightarrow> string \<Rightarrow> bool" where
  "should_escalate cfg confidence urgency =
     (if urgency = UrgencyLevel_value CRITICAL then True
      else if confidence < escalation_threshold cfg then True
      else False)"

section \<open>ReplyGeneratorService (app/services/reply_generator.py)\<close>

text \<open>
  Python strings are sequences of code points; a \<open>char\<close> stands for a code point below
  256, which covers every character of the phrases searched for. \<^verbatim>\<open>str.lower\<close> on
  such a code point moves the ASCII capitals and the Latin-1 capitals (U+00C0 to U+00DE
  without the multiplication sign U+00D7) by 32 and leaves the rest alone.
\<close>

definition lower_char :: "char \<Rightarrow> char" where
  "lower_char c =
     (let n = (of_char c :: nat) in
      if (65 \<le> n \<and> n \<le> 90) \<or> (192 \<le> n \<and> n \<le> 222 \<and> n \<noteq> 215)
      then char_of (n + 32) else c)"

definition lower :: "string \<Rightarrow> string" where
  "lower s = map lower_char s"

text \<open>
  \<^verbatim>\<open>str.strip()\<close> removes leading and trailing whitespace: the characters for which
  \<^verbatim>\<open>str.isspace\<close> holds, which below 256 are U+0009 to U+000D, U+001C to U+0020, U+0085
  and U+00A0.
\<close>

definition isspace :: "char \<Rightarrow> bool" where
  "isspace c =
     (let n = (of_char c :: nat) in
      (9 \<le> n \<and> n \<le> 13) \<or> (28 \<le> n \<and> n \<le> 32) \<or> n = 133 \<or> n = 160)"

definition strip :: "string \<Rightarrow> string" where
  "strip s = rev (dropWhile isspace (rev (dropWhile isspace s)))"

text \<open>
  IEEE 754 binary64 arithmetic, as Python's \<^verbatim>\<open>float\<close> has it. \<open>float64 x\<close> is the
  double nearest to the real \<open>x\<close>, ties to the even significand: the exponent \<open>e\<close> of
  \<open>x\<close> (the binade \<open>2^e \<le> |x| < 2^(e+1)\<close>, not below -1022, where the subnormal
  numbers start) gives the spacing \<open>2^(e-52)\<close> of the doubles around \<open>x\<close>, and \<open>x\<close> is
  rounded to a multiple of it. A decimal literal of the source is the double nearest to it,
  and a subtraction is the exact difference rounded. Overflow to infinity is not modelled;
  the values of this program stay below 1 in magnitude.
\<close>

definition pow2 :: "int \<Rightarrow> real" where
  "pow2 e = (if 0 \<le> e then 2 ^ nat e else 1 / 2 ^ nat (- e))"

fun exponent_up :: "nat \<Rightarrow> int \<Rightarrow> real \<Rightarrow> real \<Rightarrow> int" where
  "exponent_up 0 e p a = e"
| "exponent_up (Suc n) e p a = (if 2 * p \<le> a then exponent_up n (e + 1) (2 * p) a else e)"

fun exponent_down :: "nat \<Rightarrow> int \<Rightarrow> real \<Rightarrow> real \<Rightarrow> int" where
  "exponent_down 0 e p a = e"
| "exponent_down (Suc n) e p a =
     (if p / 2 \<le> a then e - 1 else exponent_down n (e - 1) (p / 2) a)"

definition float_exponent :: "real \<Rightarrow> int" where
  "float_exponent a = (if 1 \<le> a then exponent_up 1023 0 1 a else exponent_down 1022 0 1 a)"

definition round_half_even :: "real \<Rightarrow> int" where
  "round_half_even y =
     (let f = \<lfloor>y\<rfloor>; d = y - of_int f in
      if d < 1 / 2 then f else if 1 / 2 < d then f + 1 else if even f then f else f + 1)"

definition float64 :: "real \<Rightarrow> real" where
  "float64 x =
     (if x = 0 then 0
      else let u = pow2 (float_exponent \<bar>x\<bar> - 52) in of_int (round_half_even (x / u)) * u)"

definition float_sub :: "real \<Rightarrow> real \<Rightarrow> real" where
  "float_sub a b = float64 (a - b)"

text \<open>
  The clamp of the last line of \<^verbatim>\<open>_calculate_confidence\<close>: \<^verbatim>\<open>max(0.0, min(1.0, x))\<close>.
  \<^verbatim>\<open>max\<close> and \<^verbatim>\<open>min\<close> return one of their arguments, and 0.0 and 1.0 are doubles.
\<close>

definition clamp01 :: "real \<Rightarrow> real" where
  "clamp01 x = max 0 (min 1 x)"

definition unsafe_phrases :: "string list" where
  "unsafe_phrases =
     [''refund'', ''guarantee'', ''promise'', ''will fix'',
      ''by tomorrow'', ''compensation'', ''credit'']"

text \<open>
  The loop over the unsafe phrases: each phrase found in the reply (\<^verbatim>\<open>in\<close> on strings
  is the contiguous-sublist test) costs 0.15, subtracted in binary64.
\<close>

fun penalize_unsafe :: "string \<Rightarrow> string list \<Rightarrow> real \<Rightarrow> real" where
  "penalize_unsafe reply [] confidence = confidence"
| "penalize_unsafe reply (phrase # phrases) confidence =
     penalize_unsafe reply phrases
       (if sublist (lower phrase) (lower reply)
        then float_sub confidence (float64 0.15) else confidence)"

definition calculate_confidence :: "string \<Rightarrow> string \<Rightarrow> string \<Rightarrow> real" where
  "calculate_confidence reply intent urgency =
     (let confidence = float64 0.85;
          confidence = (if length reply < 50 then float_sub confidence (float64 0.2)
                        else confidence);
          confidence = penalize_unsafe reply unsafe_phrases confidence;
          confidence = (if urgency = ''critical'' then float_sub confidence (float64 0.1)
                        else confidence)
      in clamp01 confidence)"

text \<open>
  The exceptions of the pipeline. Only two kinds are told apart by the code: the plain
  \<^verbatim>\<open>Exception\<close> the services raise, and the \<^verbatim>\<open>HTTPException\<close> (status code, detail)
  of the endpoints.
\<close>

datatype error = Exception string | HTTPException nat string

text \<open>
  \<^verbatim>\<open>ReplyResult\<close> and \<^verbatim>\<open>ClassificationResult\<close> (app/schemas/ticket.py). Record fields
  are constants of the theory, so the fields of the two results carry a prefix that tells
  them from the columns of a ticket.
\<close>

record ReplyResult =
  reply :: string
  reply_confidence :: real

record ClassificationResult =
  cls_intent :: IntentType
  cls_urgency :: UrgencyLevel
  cls_confidence :: real

text \<open>
  \<^verbatim>\<open>generate_reply\<close>. The call of the inference provider is the parameter \<open>llm\<close>: given
  subject, body, intent and urgency it gives the text of the completion, or fails. Any
  failure inside the \<^verbatim>\<open>try\<close> is raised again as a plain \<^verbatim>\<open>Exception\<close>. The schema's
  constraint \<^verbatim>\<open>Field(ge=0.0, le=1.0)\<close> on the confidence is checked when the result is built.
\<close>

definition generate_reply ::
  "(string \<Rightarrow> string \<Rightarrow> string \<Rightarrow> string \<Rightarrow> error + string) \<Rightarrow>
   string \<Rightarrow> string \<Rightarrow> string \<Rightarrow> string \<Rightarrow> error + ReplyResult" where
  "generate_reply llm subject body intent urgency =
     (case llm subject body intent urgency of
        Inl e \<Rightarrow> Inl (Exception ''Reply generation error'')
      | Inr content \<Rightarrow>
          (let reply_text = strip content;
               confidence = calculate_confidence reply_text intent urgency
           in if 0 \<le> confidence \<and> confidence \<le> 1
              then Inr \<lparr>reply = reply_text, reply_confidence = confidence\<rparr>
              else Inl (Exception ''Reply generation error'')))"

section \<open>ClassifierService (app/services/classifier.py)\<close>

text \<open>
  The parsed JSON object of the classifier's completion, before validation: the three
  fields \<^verbatim>\<open>ClassificationResult(...)\<close> is built from.
\<close>

record RawClassification =
  raw_intent :: string
  raw_urgency :: string
  raw_confidence :: real

definition IntentType_of :: "string \<Rightarrow> IntentType option" where
  "IntentType_of s =
     List.find (\<lambda>i. IntentType_value i = s)
       [BILLING, TECHNICAL_ISSUE, ACCOUNT_ACCESS, CANCELLATION, FEATURE_REQUEST, GENERAL_INQUIRY]"

definition UrgencyLevel_of :: "string \<Rightarrow> UrgencyLevel option" where
  "UrgencyLevel_of s =
     List.find (\<lambda>u. UrgencyLevel_value u = s) [LOW, MEDIUM, HIGH, CRITICAL]"

text \<open>
  \<^verbatim>\<open>classify_ticket\<close>. The provider call and the JSON parsing are the parameter
  \<open>llm_json\<close>. Building the \<^verbatim>\<open>ClassificationResult\<close> validates it: the intent and the
  urgency must be values of their enumerations and the confidence must lie in [0, 1]
  (\<^verbatim>\<open>Field(ge=0.0, le=1.0)\<close>); a value out of range is rejected, not clamped. Every
  failure is raised again as a plain \<^verbatim>\<open>Exception\<close>.
\<close>

definition classify_ticket ::
  "(string \<Rightarrow> string \<Rightarrow> error + RawClassification) \<Rightarrow>
   string \<Rightarrow> string \<Rightarrow> error + ClassificationResult" where
  "classify_ticket llm_json subject body =
     (case llm_json subject body of
        Inl e \<Rightarrow> Inl (Exception ''Classification error'')
      | Inr result_data \<Rightarrow>
          (case (IntentType_of (raw_intent result_data),
                 UrgencyLevel_of (raw_urgency result_data)) of
             (Some i, Some u) \<Rightarrow>
               if 0 \<le> raw_confidence result_data \<and> raw_confidence result_data \<le> 1
               then Inr \<lparr>cls_intent = i, cls_urgency = u,
                         cls_confidence = raw_confidence result_data\<rparr>
               else Inl (Exception ''Classification error'')
           | _ \<Rightarrow> Inl (Exception ''Classification error'')))"

section \<open>Tickets and the ticket endpoints (app/models/ticket.py, app/api/tickets.py)\<close>

text \<open>
  \<^verbatim>\<open>TicketCreate\<close> carries the four fields of \<^verbatim>\<open>TicketBase\<close>; a \<^verbatim>\<open>Ticket\<close> row has
  the same four columns and the nullable columns the pipeline fills. The columns no
  endpoint modelled here writes (category, feedback, the timestamps) are left out.
\<close>

record TicketBase =
  customer_email :: string
  subject :: string
  body :: string
  source :: string

record Ticket = TicketBase +
  intent :: "IntentType option"
  urgency :: "UrgencyLevel option"
  confidence_score :: "real option"
  ai_reply :: "string option"
  final_reply :: "string option"
  assigned_team :: "string option"
  status :: TicketStatus

text \<open>
  Modelled from the spec: the persistence layer (\<^verbatim>\<open>app/database.py\<close> and the ORM
  session) is not among the sources; the spec calls it a conventional store of records. The
  table is a map from the primary key to the row, with the next key to give out.
  \<open>db_add\<close> is \<^verbatim>\<open>db.add\<close> followed by the commit that ends every endpoint.
\<close>

record database =
  rows :: "nat \<rightharpoonup> unit Ticket_scheme"
  next_id :: nat

definition db_add :: "database \<Rightarrow> Ticket \<Rightarrow> database" where
  "db_add db t = db\<lparr>rows := (rows db)(next_id db \<mapsto> t), next_id := Suc (next_id db)\<rparr>"

definition new_ticket :: "'a TicketBase_scheme \<Rightarrow> Ticket" where
  "new_ticket ticket_data =
     \<lparr>customer_email = customer_email ticket_data, subject = subject ticket_data,
      body = body ticket_data, source = source ticket_data,
      intent = None, urgency = None, confidence_score = None, ai_reply = None,
      final_reply = None, assigned_team = None, status = PENDING_REVIEW\<rparr>"

text \<open>
  The body of the loop of \<^verbatim>\<open>ingest_tickets\<close> for one fetched email, up to the
  \<^verbatim>\<open>db.add\<close>: the assignments made before an exception stay, and the handler sets the
  status to ESCALATED.
\<close>

definition process_email ::
  "Settings \<Rightarrow> (string \<Rightarrow> string \<Rightarrow> error + RawClassification) \<Rightarrow>
   (string \<Rightarrow> string \<Rightarrow> string \<Rightarrow> string \<Rightarrow> error + string) \<Rightarrow>
   'a TicketBase_scheme \<Rightarrow> Ticket" where
  "process_email cfg llm_json llm ticket_data =
     (let ticket = new_ticket ticket_data in
      case classify_ticket llm_json (subject ticket_data) (body ticket_data) of
        Inl e \<Rightarrow> ticket\<lparr>status := ESCALATED\<rparr>
      | Inr classification \<Rightarrow>
          (let ticket = ticket\<lparr>intent := Some (cls_intent classification),
                                urgency := Some (cls_urgency classification),
                                confidence_score := Some (cls_confidence classification)\<rparr>
           in case generate_reply llm (subject ticket_data) (body ticket_data)
                     (IntentType_value (cls_intent classification))
                     (UrgencyLevel_value (cls_urgency classification)) of
                Inl e \<Rightarrow> ticket\<lparr>status := ESCALATED\<rparr>
              | Inr reply_result \<Rightarrow>
                  (let ticket = ticket\<lparr>ai_reply := Some (reply reply_result)\<rparr>;
                       score = min (cls_confidence classification)
                                 (reply_confidence reply_result);
                       ticket = ticket\<lparr>confidence_score := Some score\<rparr>;
                       ticket = ticket\<lparr>assigned_team :=
                                  Some (route_ticket
                                    (IntentType_value (cls_intent classification))
                                    (UrgencyLevel_value (cls_urgency classification)))\<rparr>
                   in if should_escalate cfg score
                           (UrgencyLevel_value (cls_urgency classification))
                      then ticket\<lparr>status := ESCALATED\<rparr>
                      else ticket)))"

text \<open>The \<^verbatim>\<open>for\<close> loop: every email gives one ticket, added to the session and counted.\<close>

fun ingest_loop ::
  "Settings \<Rightarrow> (string \<Rightarrow> string \<Rightarrow> error + RawClassification) \<Rightarrow>
   (string \<Rightarrow> string \<Rightarrow> string \<Rightarrow> string \<Rightarrow> error + string) \<Rightarrow>
   TicketBase list \<Rightarrow> database \<Rightarrow> nat \<Rightarrow> database \<times> nat" where
  "ingest_loop cfg llm_json llm [] db processed_count = (db, processed_count)"
| "ingest_loop cfg llm_json llm (ticket_data # rest) db processed_count =
     ingest_loop cfg llm_json llm rest
       (db_add db (process_email cfg llm_json llm ticket_data)) (processed_count + 1)"

datatype ingest_response = No_new_emails | Processed nat

text \<open>
  \<^verbatim>\<open>ingest_tickets\<close>. \<open>fetched\<close> is what \<^verbatim>\<open>gmail_service.fetch_unread_emails\<close> gives:
  the list of new emails, or a failure, which the outer handler turns into a 500.
\<close>

definition ingest_tickets ::
  "Settings \<Rightarrow> (error + TicketBase list) \<Rightarrow>
   (string \<Rightarrow> string \<Rightarrow> error + RawClassification) \<Rightarrow>
   (string \<Rightarrow> string \<Rightarrow> string \<Rightarrow> string \<Rightarrow> error + string) \<Rightarrow>
   database \<Rightarrow> error + (ingest_response \<times> database)" where
  "ingest_tickets cfg fetched llm_json llm db =
     (case fetched of
        Inl e \<Rightarrow> Inl (HTTPException 500 ''Ingestion failed'')
      | Inr ticket_data_list \<Rightarrow>
          if ticket_data_list = [] then Inr (No_new_emails, db)
          else (case ingest_loop cfg llm_json llm ticket_data_list db 0 of
                  (db', processed_count) \<Rightarrow> Inr (Processed processed_count, db')))"

text \<open>
  An f-string prints \<^verbatim>\<open>None\<close> as the text \<^verbatim>\<open>None\<close>; \<^verbatim>\<open>assigned_team\<close> is a nullable
  column.
\<close>

definition fmt :: "string option \<Rightarrow> string" where
  "fmt v = (case v of None \<Rightarrow> ''None'' | Some s \<Rightarrow> s)"

definition escalate_ticket :: "database \<Rightarrow> nat \<Rightarrow> error + (database \<times> Ticket)" where
  "escalate_ticket db ticket_id =
     (case rows db ticket_id of
        None \<Rightarrow> Inl (HTTPException 404 ''Ticket not found'')
      | Some ticket \<Rightarrow>
          (let ticket = ticket\<lparr>status := ESCALATED\<rparr>;
               ticket = ticket\<lparr>assigned_team :=
                          Some (fmt (assigned_team ticket) @ '' - ESCALATED'')\<rparr>
           in Inr (db\<lparr>rows := (rows db)(ticket_id \<mapsto> ticket)\<rparr>, ticket)))"

section \<open>Properties of the routing and policy functions\<close>

lemma UrgencyLevel_value_eq_critical [simp]:
  "(UrgencyLevel_value u = ''critical'') = (u = CRITICAL)"
  by (cases u) simp_all

lemma UrgencyLevel_value_eq_high [simp]:
  "(UrgencyLevel_value u = ''high'') = (u = HIGH)"
  by (cases u) simp_all

text \<open>
  C2. \<^verbatim>\<open>should_auto_send\<close> is false whenever the urgency is high or critical; for any
  other urgency (low and medium among them) it is true exactly when the confidence is at
  least the configured auto-send threshold. The boundary is inclusive: confidence 0.8 with
  threshold 0.8 and urgency low gives true, 0.79999 gives false.
\<close>

theorem should_auto_send_spec:
  "should_auto_send cfg c urg =
     (urg \<noteq> ''high'' \<and> urg \<noteq> ''critical'' \<and> auto_send_threshold cfg \<le> c)
   \<and> should_auto_send cfg c (UrgencyLevel_value u) =
     ((u = LOW \<or> u = MEDIUM) \<and> auto_send_threshold cfg \<le> c)
   \<and> should_auto_send (cfg\<lparr>auto_send_threshold := 0.8\<rparr>) 0.8 (UrgencyLevel_value LOW)
   \<and> \<not> should_auto_send (cfg\<lparr>auto_send_threshold := 0.8\<rparr>) 0.79999 (UrgencyLevel_value LOW)"
  by (cases u) (auto simp: should_auto_send_def)

theorem should_auto_send_spec_witness:
  "should_auto_send default_settings 0.8 ''medium''
   \<and> \<not> should_auto_send default_settings 1 ''high''
   \<and> \<not> should_auto_send default_settings 1 ''critical''
   \<and> \<not> should_auto_send default_settings 0.5 ''low''"
  using should_auto_send_spec [of default_settings "0.8" "''medium''" MEDIUM]
    should_auto_send_spec [of default_settings 1 "''high''" HIGH]
    should_auto_send_spec [of default_settings 1 "''critical''" CRITICAL]
    should_auto_send_spec [of default_settings "0.5" "''low''" LOW]
  by (simp add: default_settings_def)

text \<open>
  C3. \<^verbatim>\<open>should_escalate\<close> is true whenever the urgency is critical, whatever the
  confidence; for any other urgency it is true exactly when the confidence is strictly below
  the configured escalation threshold, so a confidence equal to the threshold does not
  escalate.
\<close>

theorem should_escalate_spec:
  "should_escalate cfg c urg =
     (urg = ''critical'' \<or> c < escalation_threshold cfg)
   \<and> should_escalate cfg c (UrgencyLevel_value u) =
     (u = CRITICAL \<or> c < escalation_threshold cfg)
   \<and> \<not> should_escalate cfg (escalation_threshold cfg) (UrgencyLevel_value MEDIUM)"
  by (auto simp: should_escalate_def)

theorem should_escalate_spec_witness:
  "should_escalate default_settings 1 ''critical''
   \<and> \<not> should_escalate default_settings 0.6 ''medium''
   \<and> should_escalate default_settings 0.59999 ''medium''"
  using should_escalate_spec [of default_settings 1 "''critical''" CRITICAL]
    should_escalate_spec [of default_settings "0.6" "''medium''" MEDIUM]
    should_escalate_spec [of default_settings "0.59999" "''medium''" MEDIUM]
  by (simp add: default_settings_def)

lemma dict_get_team_cases:
  "dict_get INTENT_TEAM_MAP i ''General Support'' =
     (if i = ''billing'' then ''Finance Team''
      else if i = ''technical_issue'' then ''Tech Support''
      else if i = ''account_access'' then ''Account Services''
      else if i = ''cancellation'' then ''Retention Team''
      else if i = ''feature_request'' then ''Product Team''
      else ''General Support'')"
  by (simp add: dict_get_def INTENT_TEAM_MAP_def)

lemma team_not_escalated:
  "\<not> suffix '' - ESCALATED'' (dict_get INTENT_TEAM_MAP i ''General Support'')"
  by (simp add: dict_get_team_cases suffix_to_prefix)

lemma route_ticket_append:
  "route_ticket i urg =
     dict_get INTENT_TEAM_MAP i ''General Support''
       @ (if urg = ''critical'' then '' - ESCALATED'' else [])"
  by (simp add: route_ticket_def Let_def)

text \<open>
  C4. \<^verbatim>\<open>route_ticket\<close> gives the team the table maps the intent to, and
  \<^verbatim>\<open>General Support\<close> for any key the table does not have (the function has no failing
  branch). The result ends in the suffix \<^verbatim>\<open> - ESCALATED\<close> exactly when the urgency is
  critical; for every other urgency it is the team name unchanged.
\<close>

theorem route_ticket_spec:
  "route_ticket i urg =
     (if i = ''billing'' then ''Finance Team''
      else if i = ''technical_issue'' then ''Tech Support''
      else if i = ''account_access'' then ''Account Services''
      else if i = ''cancellation'' then ''Retention Team''
      else if i = ''feature_request'' then ''Product Team''
      else ''General Support'') @ (if urg = ''critical'' then '' - ESCALATED'' else [])
   \<and> suffix '' - ESCALATED'' (route_ticket i urg) = (urg = ''critical'')"
proof -
  have b: "suffix '' - ESCALATED'' (route_ticket i urg) = (urg = ''critical'')"
  proof (cases "urg = ''critical''")
    case True
    then show ?thesis by (simp add: route_ticket_append suffixI)
  next
    case False
    then show ?thesis using team_not_escalated [of i] by (simp add: route_ticket_append)
  qed
  show ?thesis
    using b by (simp add: route_ticket_append dict_get_team_cases)
qed

theorem route_ticket_spec_witness:
  "route_ticket ''technical_issue'' ''critical'' = ''Tech Support - ESCALATED''
   \<and> route_ticket ''billing'' ''high'' = ''Finance Team''
   \<and> route_ticket ''spam'' ''low'' = ''General Support''
   \<and> route_ticket ''spam'' ''critical'' = ''General Support - ESCALATED''"
  using route_ticket_spec [of "''technical_issue''" "''critical''"]
    route_ticket_spec [of "''billing''" "''high''"]
    route_ticket_spec [of "''spam''" "''low''"]
    route_ticket_spec [of "''spam''" "''critical''"]
  by simp

text \<open>
  C5, as stated: for every configuration the two policies never both hold. The thresholds
  are two independent settings; with the escalation threshold above the auto-send threshold
  a confidence between them is both auto-sent and escalated.
\<close>

theorem policies_conflict_counterexample:
  "should_auto_send
     (default_settings\<lparr>auto_send_threshold := 0.5, escalation_threshold := 0.9\<rparr>)
     0.7 (UrgencyLevel_value LOW)
   \<and> should_escalate
     (default_settings\<lparr>auto_send_threshold := 0.5, escalation_threshold := 0.9\<rparr>)
     0.7 (UrgencyLevel_value LOW)"
  by (simp add: should_auto_send_def should_escalate_def default_settings_def)

text \<open>
  C5, amended: whenever the configured escalation threshold is at most the configured
  auto-send threshold (as with the defaults 0.6 and 0.8), \<^verbatim>\<open>should_auto_send\<close> and
  \<^verbatim>\<open>should_escalate\<close> are never both true, for every confidence and every urgency.
\<close>

theorem policies_exclusive:
  "escalation_threshold cfg \<le> auto_send_threshold cfg \<Longrightarrow>
   \<not> (should_auto_send cfg c urg \<and> should_escalate cfg c urg)"
  by (auto simp: should_auto_send_def should_escalate_def)

theorem policies_exclusive_witness:
  "escalation_threshold default_settings \<le> auto_send_threshold default_settings
   \<and> \<not> (should_auto_send default_settings 0.85 ''low''
         \<and> should_escalate default_settings 0.85 ''low'')
   \<and> should_auto_send default_settings 0.85 ''low''"
proof -
  have h: "escalation_threshold default_settings \<le> auto_send_threshold default_settings"
    by (simp add: default_settings_def)
  show ?thesis
    using h policies_exclusive [OF h, of "0.85" "''low''"]
    by (simp add: should_auto_send_def default_settings_def)
qed

text \<open>
  C6. \<^verbatim>\<open>get_sla_hours\<close> looks the urgency up in the class-level table of literals and
  falls back to 24; the settings \<^verbatim>\<open>sla_low\<close> to \<^verbatim>\<open>sla_critical\<close> are not read. With
  \<^verbatim>\<open>sla_low\<close> configured as 72 the lookup for low still gives 48.
\<close>

theorem get_sla_hours_ignores_settings:
  "get_sla_hours urg =
     (if urg = ''low'' then 48 else if urg = ''medium'' then 24
      else if urg = ''high'' then 8 else if urg = ''critical'' then 2 else 24)
   \<and> get_sla_hours (UrgencyLevel_value LOW) = 48
   \<and> sla_low (default_settings\<lparr>sla_low := 72\<rparr>) = 72"
  by (simp add: get_sla_hours_def dict_get_def SLA_HOURS_def)

text \<open>
  C7, as stated: the confidence is clamped to [0, 1] before any policy comparison. The
  policies compare the confidence as it is given: with an escalation threshold of 0 a
  confidence of -0.1 escalates, and its clamped value 0 would not.
\<close>

theorem no_clamp_counterexample:
  "should_escalate (default_settings\<lparr>escalation_threshold := 0\<rparr>) (- 0.1)
     (UrgencyLevel_value LOW)
   \<and> \<not> should_escalate (default_settings\<lparr>escalation_threshold := 0\<rparr>) (clamp01 (- 0.1))
     (UrgencyLevel_value LOW)"
  by (simp add: should_escalate_def clamp01_def)

text \<open>
  C7, amended: the policy functions do not clamp; they are total, so no confidence, in or
  out of [0, 1], makes them fail, and whenever both thresholds lie in (0, 1] their results
  on a confidence are the results on the clamped confidence.
\<close>

theorem policies_unclamped:
  "0 < auto_send_threshold cfg \<and> auto_send_threshold cfg \<le> 1 \<Longrightarrow>
   0 < escalation_threshold cfg \<and> escalation_threshold cfg \<le> 1 \<Longrightarrow>
   should_auto_send cfg c urg = should_auto_send cfg (clamp01 c) urg
   \<and> should_escalate cfg c urg = should_escalate cfg (clamp01 c) urg"
  by (auto simp: should_auto_send_def should_escalate_def clamp01_def)

theorem policies_unclamped_witness:
  "should_auto_send default_settings 1.5 ''low''
   \<and> should_auto_send default_settings (clamp01 1.5) ''low''
   \<and> should_escalate default_settings (- 0.5) ''low''
   \<and> should_escalate default_settings (clamp01 (- 0.5)) ''low''"
proof -
  have a: "0 < auto_send_threshold default_settings \<and> auto_send_threshold default_settings \<le> 1"
    by (simp add: default_settings_def)
  have e: "0 < escalation_threshold default_settings
           \<and> escalation_threshold default_settings \<le> 1"
    by (simp add: default_settings_def)
  show ?thesis
    using policies_unclamped [OF a e, of "1.5" "''low''"]
      policies_unclamped [OF a e, of "- 0.5" "''low''"]
    by (simp add: should_auto_send_def should_escalate_def default_settings_def clamp01_def)
qed

section \<open>Properties of the reply-confidence heuristic\<close>

text \<open>
  Rounding to nearest moves a number by at most half the spacing of the doubles around
  it, which is at most \<open>2^-53\<close> times the larger of 1 and its magnitude.
\<close>

lemma round_half_even_le: "of_int (round_half_even y) \<le> y + 1 / 2"
proof -
  define f where "f = \<lfloor>y\<rfloor>"
  have a: "of_int f \<le> y" by (simp add: f_def)
  have r: "round_half_even y =
     (if y - of_int f < 1 / 2 then f else if 1 / 2 < y - of_int f then f + 1
      else if even f then f else f + 1)"
    by (simp add: round_half_even_def Let_def f_def)
  show ?thesis
  proof (cases "y - of_int f < 1 / 2")
    case True
    then show ?thesis using a by (simp add: r)
  next
    case False
    then have "of_int (round_half_even y) \<le> (of_int f :: real) + 1"
      by (simp add: r)
    then show ?thesis using False by linarith
  qed
qed

lemma pow2_pos: "0 < pow2 e"
  by (simp add: pow2_def)

lemma pow2_Suc: "pow2 (e + 1) = 2 * pow2 e"
proof (cases "0 \<le> e")
  case True
  then show ?thesis by (simp add: pow2_def nat_add_distrib)
next
  case False
  then have "nat (- e) = Suc (nat (- (e + 1)))" by simp
  then show ?thesis using False by (auto simp add: pow2_def)
qed

lemma pow2_mono: "e \<le> e' \<Longrightarrow> pow2 e \<le> pow2 e'"
proof -
  assume "e \<le> e'"
  then obtain k where k: "e' = e + int k"
    by (metis nonneg_int_cases diff_ge_0_iff_ge add_diff_cancel_left' diff_add_cancel)
  have "pow2 e \<le> pow2 (e + int k)"
  proof (induction k)
    case 0
    then show ?case by simp
  next
    case (Suc k)
    have "pow2 (e + int (Suc k)) = 2 * pow2 (e + int k)"
      using pow2_Suc [of "e + int k"] by (simp add: algebra_simps)
    then show ?case using Suc pow2_pos [of "e + int k"] by linarith
  qed
  then show ?thesis by (simp add: k)
qed

lemma exponent_down_le: "exponent_down (Suc n) e p a \<le> e - 1"
proof (induction n arbitrary: e p)
  case 0
  then show ?case by simp
next
  case (Suc n)
  have "exponent_down (Suc n) (e - 1) (p / 2) a \<le> e - 1 - 1" by (rule Suc.IH)
  then show ?case by simp
qed

lemma exponent_up_bound:
  "p = pow2 e \<Longrightarrow> p \<le> a \<Longrightarrow> pow2 (exponent_up n e p a) \<le> a"
proof (induction n arbitrary: e p)
  case 0
  then show ?case by simp
next
  case (Suc n)
  show ?case
  proof (cases "2 * p \<le> a")
    case True
    have "pow2 (exponent_up n (e + 1) (2 * p) a) \<le> a"
      using Suc.prems True by (intro Suc.IH) (simp_all add: pow2_Suc)
    then show ?thesis using True by simp
  next
    case False
    then show ?thesis using Suc.prems by simp
  qed
qed

lemma pow2_52: "pow2 (e - 52) = pow2 e * pow2 (- 52)"
proof -
  have "pow2 (e' + int k) = pow2 e' * 2 ^ k" for e' k
  proof (induction k)
    case 0
    then show ?case by simp
  next
    case (Suc k)
    have "pow2 (e' + int (Suc k)) = 2 * pow2 (e' + int k)"
      using pow2_Suc [of "e' + int k"] by (simp add: algebra_simps)
    then show ?case using Suc by simp
  qed
  from this [of "e - 52" 52] have "pow2 e = pow2 (e - 52) * 2 ^ 52" by simp
  moreover have "pow2 (- 52) = 1 / 2 ^ 52" by (simp add: pow2_def)
  ultimately show ?thesis by simp
qed

lemma ulp_bound:
  assumes "0 < a"
  shows "pow2 (float_exponent a - 52) \<le> max 1 a * pow2 (- 52)"
proof (cases "1 \<le> a")
  case True
  have "pow2 (exponent_up 1023 0 1 a) \<le> a"
    using True by (intro exponent_up_bound) (simp_all add: pow2_def)
  then have "pow2 (float_exponent a) \<le> a"
    using True by (simp add: float_exponent_def)
  then have "pow2 (float_exponent a) * pow2 (- 52) \<le> a * pow2 (- 52)"
    using pow2_pos [of "- 52"] by simp
  then show ?thesis using True by (simp add: pow2_52 [of "float_exponent a"] max_def)
next
  case False
  have "float_exponent a \<le> - 1"
    using False exponent_down_le [of 1021 0 1 a] by (simp add: float_exponent_def)
  then have "pow2 (float_exponent a) \<le> pow2 (- 1)" by (rule pow2_mono)
  also have "\<dots> \<le> 1" by (simp add: pow2_def)
  finally have "pow2 (float_exponent a) * pow2 (- 52) \<le> 1 * pow2 (- 52)"
    using pow2_pos [of "- 52"] by simp
  then show ?thesis using False by (simp add: pow2_52 [of "float_exponent a"] max_def)
qed

lemma float64_le: "float64 x \<le> x + max 1 \<bar>x\<bar> * pow2 (- 52) / 2"
proof (cases "x = 0")
  case True
  then show ?thesis using pow2_pos [of "- 52"] by (simp add: float64_def)
next
  case False
  define u where "u = pow2 (float_exponent \<bar>x\<bar> - 52)"
  have u: "0 < u" by (simp add: u_def pow2_pos)
  have ub: "u \<le> max 1 \<bar>x\<bar> * pow2 (- 52)"
    unfolding u_def using False by (intro ulp_bound) simp
  have "float64 x = of_int (round_half_even (x / u)) * u"
    using False by (simp add: float64_def u_def Let_def)
  also have "\<dots> \<le> (x / u + 1 / 2) * u"
    using round_half_even_le [of "x / u"] u by (simp add: mult_right_mono)
  also have "\<dots> = x + u / 2" using u by (simp add: field_simps)
  finally show ?thesis using ub by linarith
qed


lemma float64_085: "float64 0.85 = 7656119366529843 / 9007199254740992"
  by code_simp

lemma float64_02: "float64 0.2 = 3602879701896397 / 18014398509481984"
  by code_simp

lemma float64_015: "float64 0.15 = 5404319552844595 / 36028797018963968"
  by code_simp

lemma float64_01: "float64 0.1 = 3602879701896397 / 36028797018963968"
  by code_simp

lemma float_sub_penalty:
  assumes "c \<le> float64 0.85" and "9 / 100 \<le> d"
  shows "float_sub c d \<le> float64 0.85"
proof -
  define x where "x = c - d"
  have x: "x \<le> 19 / 25" using assms unfolding x_def float64_085 by simp
  have e: "pow2 (- 52) / 2 \<le> 1 / 1000" by (simp add: pow2_def)
  have p: "0 < pow2 (- 52) / 2" by (simp add: pow2_def)
  have "float64 x \<le> 21 / 25"
  proof (cases "- 1 \<le> x")
    case True
    then have "max 1 \<bar>x\<bar> = 1" using x by (simp add: max_def abs_if)
    then have "float64 x \<le> x + pow2 (- 52) / 2" using float64_le [of x] by simp
    then show ?thesis using x e by linarith
  next
    case False
    then have m: "max 1 \<bar>x\<bar> = - x" by (simp add: max_def abs_if)
    have "(- x) * (pow2 (- 52) / 2) \<le> (- x) * (1 / 1000)"
      using False e by (intro mult_left_mono) simp_all
    then have "float64 x \<le> x + (- x) * (1 / 1000)"
      using float64_le [of x] by (simp add: m)
    then show ?thesis using False by linarith
  qed
  then show ?thesis unfolding float_sub_def x_def float64_085 by simp
qed

lemma penalize_unsafe_le:
  "c \<le> float64 0.85 \<Longrightarrow> penalize_unsafe r ps c \<le> float64 0.85"
proof (induction ps arbitrary: c)
  case Nil
  then show ?case by simp
next
  case (Cons p ps)
  have "float_sub c (float64 0.15) \<le> float64 0.85"
    using Cons.prems by (rule float_sub_penalty) (unfold float64_015, simp)
  then show ?case using Cons by simp
qed

lemma penalize_unsafe_none:
  "\<forall>p \<in> set ps. \<not> sublist (lower p) (lower r) \<Longrightarrow> penalize_unsafe r ps c = c"
  by (induction ps arbitrary: c) simp_all

text \<open>
  C10. The reply-confidence heuristic starts from the double 0.85, only subtracts
  penalties (short reply, unsafe phrases, critical urgency), each subtraction rounded to
  binary64, and clamps: for every reply text, intent and urgency its value lies between 0
  and the double 0.85, which is itself below the real 0.85, so neither it nor the minimum
  of it and a classification confidence exceeds 0.85. The bound is reached: a reply of at
  least 50 characters with no unsafe phrase and a non-critical urgency has exactly the
  base confidence.
\<close>

theorem calculate_confidence_range:
  "0 \<le> calculate_confidence r i u \<and> calculate_confidence r i u \<le> float64 0.85
   \<and> float64 0.85 \<le> 0.85 \<and> min c (calculate_confidence r i u) \<le> 0.85
   \<and> (50 \<le> length r \<and> (\<forall>p \<in> set unsafe_phrases. \<not> sublist (lower p) (lower r))
        \<and> u \<noteq> ''critical'' \<longrightarrow> calculate_confidence r i u = float64 0.85)"
proof -
  define c0 where "c0 = (if length r < 50 then float_sub (float64 0.85) (float64 0.2)
                         else float64 0.85)"
  define c1 where "c1 = penalize_unsafe r unsafe_phrases c0"
  define c2 where "c2 = (if u = ''critical'' then float_sub c1 (float64 0.1) else c1)"
  have eq: "calculate_confidence r i u = clamp01 c2"
    by (simp add: calculate_confidence_def c0_def c1_def c2_def Let_def)
  have b: "float64 0.85 \<le> 0.85" unfolding float64_085 by simp
  have "c0 \<le> float64 0.85"
  proof -
    have "9 / 100 \<le> float64 0.2" unfolding float64_02 by simp
    then show ?thesis
      unfolding c0_def using float_sub_penalty [of "float64 0.85" "float64 0.2"] by simp
  qed
  then have "c1 \<le> float64 0.85" unfolding c1_def by (rule penalize_unsafe_le)
  then have "c2 \<le> float64 0.85"
  proof -
    assume c1: "c1 \<le> float64 0.85"
    have "9 / 100 \<le> float64 0.1" unfolding float64_01 by simp
    then show ?thesis
      unfolding c2_def using c1 float_sub_penalty [of c1 "float64 0.1"] by simp
  qed
  moreover have "0 \<le> float64 0.85" unfolding float64_085 by simp
  ultimately have u: "clamp01 c2 \<le> float64 0.85" and l: "0 \<le> clamp01 c2"
    by (simp_all add: clamp01_def)
  have top: "calculate_confidence r i u = float64 0.85"
    if "50 \<le> length r" "\<forall>p \<in> set unsafe_phrases. \<not> sublist (lower p) (lower r)"
      "u \<noteq> ''critical''"
  proof -
    have "0 \<le> float64 0.85" "float64 0.85 \<le> 1" unfolding float64_085 by simp_all
    then show ?thesis
      using that by (simp add: calculate_confidence_def penalize_unsafe_none clamp01_def)
  qed
  show ?thesis
    using u l b top by (auto simp add: eq min_le_iff_disj)
qed

lemma example_short_unsafe_critical:
  "calculate_confidence ''We will refund you.'' ''billing'' ''critical''
     = 900719925474099 / 2251799813685248"
  by code_simp

lemma example_reply_confidence:
  "calculate_confidence ''Thank you for reaching out; our team is looking into this now.''
     ''billing'' ''low'' = float64 0.85"
  unfolding float64_085 by code_simp

text \<open>
  The theorem at three replies, with the values the program computes: a short reply with
  one unsafe phrase and critical urgency gives 0.85 - 0.2 - 0.15 - 0.1 in binary64, the
  double printed as 0.3999999999999999 (below 0.4); a long harmless reply gives the base.
\<close>

theorem calculate_confidence_range_witness:
  "calculate_confidence ''We will refund you.'' ''billing'' ''critical''
     = 900719925474099 / 2251799813685248
   \<and> calculate_confidence ''We will refund you.'' ''billing'' ''critical'' < 0.4
   \<and> 0 \<le> calculate_confidence ''We will refund you.'' ''billing'' ''critical''
   \<and> calculate_confidence ''We will refund you.'' ''billing'' ''critical'' \<le> float64 0.85
   \<and> calculate_confidence ''Thank you for reaching out; our team is looking into this now.''
        ''billing'' ''low'' = float64 0.85
   \<and> float64 0.85 = 7656119366529843 / 9007199254740992"
proof -
  have lt: "(900719925474099 / 2251799813685248 :: real) < 0.4" by simp
  show ?thesis
    using calculate_confidence_range
        [of "''We will refund you.''" "''billing''" "''critical''" 1]
      lt float64_085
    by (simp add: example_short_unsafe_critical example_reply_confidence)
qed

section \<open>Properties of the ingestion step\<close>

lemma should_escalate_auto_send_update:
  "should_escalate (cfg\<lparr>auto_send_threshold := a\<rparr>) = should_escalate cfg"
  by (simp add: should_escalate_def fun_eq_iff)

lemma process_email_auto_send_irrelevant:
  "process_email (cfg\<lparr>auto_send_threshold := a\<rparr>) llm_json llm td
     = process_email cfg llm_json llm td"
  unfolding process_email_def should_escalate_auto_send_update by (rule refl)

text \<open>
  C1, amended: for a ticket whose classification and reply generation succeed, the
  ingestion step stores the effective confidence min(classification confidence, reply
  confidence), assigns the team \<^verbatim>\<open>route_ticket\<close> gives for (intent, urgency), and sets the
  status to ESCALATED exactly when \<^verbatim>\<open>should_escalate\<close> holds of (effective confidence,
  urgency) under the configured escalation threshold (PENDING_REVIEW otherwise). It
  computes no auto-send flag: the result is the same for every auto-send threshold.
\<close>

theorem process_email_decision:
  assumes "classify_ticket llm_json (subject td) (body td) = Inr c"
    and "generate_reply llm (subject td) (body td)
           (IntentType_value (cls_intent c)) (UrgencyLevel_value (cls_urgency c)) = Inr r"
  shows "confidence_score (process_email cfg llm_json llm td)
           = Some (min (cls_confidence c) (reply_confidence r))
       \<and> assigned_team (process_email cfg llm_json llm td)
           = Some (route_ticket (IntentType_value (cls_intent c))
                     (UrgencyLevel_value (cls_urgency c)))
       \<and> status (process_email cfg llm_json llm td)
           = (if should_escalate cfg (min (cls_confidence c) (reply_confidence r))
                   (UrgencyLevel_value (cls_urgency c))
              then ESCALATED else PENDING_REVIEW)
       \<and> process_email (cfg\<lparr>auto_send_threshold := a\<rparr>) llm_json llm td
           = process_email cfg llm_json llm td"
  using assms
  by (simp add: process_email_auto_send_irrelevant)
    (simp add: process_email_def new_ticket_def Let_def)

lemma example_strip:
  "strip ''Thank you for reaching out; our team is looking into this now.''
     = ''Thank you for reaching out; our team is looking into this now.''"
  by code_simp

lemma example_classify:
  "classify_ticket (\<lambda>s b. Inr \<lparr>raw_intent = ''billing'', raw_urgency = ''low'', raw_confidence = 0.9\<rparr>) s b
    = Inr \<lparr>cls_intent = BILLING, cls_urgency = LOW, cls_confidence = 0.9\<rparr>"
  by (simp add: classify_ticket_def IntentType_of_def UrgencyLevel_of_def)

lemma example_generate:
  "generate_reply (\<lambda>s b i u. Inr ''Thank you for reaching out; our team is looking into this now.'')
      s b ''billing'' ''low''
    = Inr \<lparr>reply = ''Thank you for reaching out; our team is looking into this now.'',
           reply_confidence = float64 0.85\<rparr>"
proof -
  have "0 \<le> float64 0.85" "float64 0.85 \<le> 1" unfolding float64_085 by simp_all
  then show ?thesis
    by (simp add: generate_reply_def example_strip example_reply_confidence Let_def)
qed

lemma float64_085_bounds:
  "0.8 \<le> float64 0.85" "float64 0.85 < 0.9" "0.6 \<le> float64 0.85"
  unfolding float64_085 by simp_all

text \<open>
  C1, as stated: the ingestion step's verdict holds the auto-send flag of the Auto-Send
  Policy. \<^verbatim>\<open>ingest_tickets\<close> never calls \<^verbatim>\<open>should_auto_send\<close>: for the same email, the
  same classification (billing, low, 0.9) and the same reply (confidence 0.85), the ticket
  it produces under an auto-send threshold of 0.9 is the ticket it produces under 0.8,
  though the policy says no under the first and yes under the second.
\<close>

theorem no_auto_send_flag_counterexample:
  "process_email (default_settings\<lparr>auto_send_threshold := 0.9\<rparr>)
      (\<lambda>s b. Inr \<lparr>raw_intent = ''billing'', raw_urgency = ''low'', raw_confidence = 0.9\<rparr>)
      (\<lambda>s b i u. Inr ''Thank you for reaching out; our team is looking into this now.'')
      \<lparr>customer_email = ''a@example.com'', subject = ''Invoice'', body = ''Please send it'',
       source = ''gmail''\<rparr>
    = process_email default_settings
      (\<lambda>s b. Inr \<lparr>raw_intent = ''billing'', raw_urgency = ''low'', raw_confidence = 0.9\<rparr>)
      (\<lambda>s b i u. Inr ''Thank you for reaching out; our team is looking into this now.'')
      \<lparr>customer_email = ''a@example.com'', subject = ''Invoice'', body = ''Please send it'',
       source = ''gmail''\<rparr>
   \<and> confidence_score (process_email default_settings
      (\<lambda>s b. Inr \<lparr>raw_intent = ''billing'', raw_urgency = ''low'', raw_confidence = 0.9\<rparr>)
      (\<lambda>s b i u. Inr ''Thank you for reaching out; our team is looking into this now.'')
      \<lparr>customer_email = ''a@example.com'', subject = ''Invoice'', body = ''Please send it'',
       source = ''gmail''\<rparr>) = Some (float64 0.85)
   \<and> should_auto_send default_settings (float64 0.85) (UrgencyLevel_value LOW)
   \<and> \<not> should_auto_send (default_settings\<lparr>auto_send_threshold := 0.9\<rparr>) (float64 0.85)
        (UrgencyLevel_value LOW)"
proof -
  note b = float64_085_bounds
  show ?thesis
  proof (intro conjI)
  show "process_email (default_settings\<lparr>auto_send_threshold := 0.9\<rparr>)
      (\<lambda>s b. Inr \<lparr>raw_intent = ''billing'', raw_urgency = ''low'', raw_confidence = 0.9\<rparr>)
      (\<lambda>s b i u. Inr ''Thank you for reaching out; our team is looking into this now.'')
      \<lparr>customer_email = ''a@example.com'', subject = ''Invoice'', body = ''Please send it'',
       source = ''gmail''\<rparr>
    = process_email default_settings
      (\<lambda>s b. Inr \<lparr>raw_intent = ''billing'', raw_urgency = ''low'', raw_confidence = 0.9\<rparr>)
      (\<lambda>s b i u. Inr ''Thank you for reaching out; our team is looking into this now.'')
      \<lparr>customer_email = ''a@example.com'', subject = ''Invoice'', body = ''Please send it'',
       source = ''gmail''\<rparr>"
    by (rule process_email_auto_send_irrelevant)
  qed (use b in \<open>simp_all add: process_email_def example_classify example_generate
      new_ticket_def should_auto_send_def should_escalate_def default_settings_def Let_def\<close>)
qed

theorem process_email_decision_witness:
  "confidence_score (process_email default_settings
      (\<lambda>s b. Inr \<lparr>raw_intent = ''billing'', raw_urgency = ''low'', raw_confidence = 0.9\<rparr>)
      (\<lambda>s b i u. Inr ''Thank you for reaching out; our team is looking into this now.'')
      \<lparr>customer_email = ''a@example.com'', subject = ''Invoice'', body = ''Please send it'',
       source = ''gmail''\<rparr>) = Some (float64 0.85)
  \<and> assigned_team (process_email default_settings
      (\<lambda>s b. Inr \<lparr>raw_intent = ''billing'', raw_urgency = ''low'', raw_confidence = 0.9\<rparr>)
      (\<lambda>s b i u. Inr ''Thank you for reaching out; our team is looking into this now.'')
      \<lparr>customer_email = ''a@example.com'', subject = ''Invoice'', body = ''Please send it'',
       source = ''gmail''\<rparr>) = Some ''Finance Team''
  \<and> status (process_email default_settings
      (\<lambda>s b. Inr \<lparr>raw_intent = ''billing'', raw_urgency = ''low'', raw_confidence = 0.9\<rparr>)
      (\<lambda>s b i u. Inr ''Thank you for reaching out; our team is looking into this now.'')
      \<lparr>customer_email = ''a@example.com'', subject = ''Invoice'', body = ''Please send it'',
       source = ''gmail''\<rparr>) = PENDING_REVIEW"
  using process_email_decision [OF example_classify, of
      "(\<lambda>s b i u. Inr ''Thank you for reaching out; our team is looking into this now.'')"
      "\<lparr>customer_email = ''a@example.com'', subject = ''Invoice'', body = ''Please send it'',
       source = ''gmail''\<rparr>"
      "\<lparr>reply = ''Thank you for reaching out; our team is looking into this now.'',
           reply_confidence = float64 0.85\<rparr>" default_settings]
    float64_085_bounds
  by (simp add: example_generate route_ticket_def dict_get_def INTENT_TEAM_MAP_def
      should_escalate_def default_settings_def)

section \<open>Properties of the escalate endpoint\<close>

text \<open>
  C8. For an existing ticket, every call of the escalate endpoint sets the status to
  ESCALATED and appends \<^verbatim>\<open> - ESCALATED\<close> to whatever the team string is (a null team
  prints as \<^verbatim>\<open>None\<close>), with no check for a suffix already there. Two calls in a row
  give the old team followed by the suffix twice, and a different ticket from the one after
  the first call: the operation is not idempotent.
\<close>

theorem escalate_ticket_appends:
  assumes "rows db ticket_id = Some t"
  shows "\<exists>db1 t1 db2 t2.
           escalate_ticket db ticket_id = Inr (db1, t1)
         \<and> escalate_ticket db1 ticket_id = Inr (db2, t2)
         \<and> rows db1 ticket_id = Some t1 \<and> rows db2 ticket_id = Some t2
         \<and> status t1 = ESCALATED \<and> status t2 = ESCALATED
         \<and> assigned_team t1 = Some (fmt (assigned_team t) @ '' - ESCALATED'')
         \<and> assigned_team t2 = Some (fmt (assigned_team t) @ '' - ESCALATED'' @ '' - ESCALATED'')
         \<and> t2 \<noteq> t1"
proof -
  define t1 where "t1 = t\<lparr>status := ESCALATED,
     assigned_team := Some (fmt (assigned_team t) @ '' - ESCALATED'')\<rparr>"
  define db1 where "db1 = db\<lparr>rows := (rows db)(ticket_id \<mapsto> t1)\<rparr>"
  define t2 where "t2 = t1\<lparr>status := ESCALATED,
     assigned_team := Some (fmt (assigned_team t1) @ '' - ESCALATED'')\<rparr>"
  define db2 where "db2 = db1\<lparr>rows := (rows db1)(ticket_id \<mapsto> t2)\<rparr>"
  have e1: "escalate_ticket db ticket_id = Inr (db1, t1)"
    using assms by (simp add: escalate_ticket_def t1_def db1_def Let_def)
  have r1: "rows db1 ticket_id = Some t1"
    by (simp add: db1_def)
  have e2: "escalate_ticket db1 ticket_id = Inr (db2, t2)"
    using r1 by (simp add: escalate_ticket_def t2_def db2_def Let_def)
  have r2: "rows db2 ticket_id = Some t2"
    by (simp add: db2_def)
  have a1: "assigned_team t1 = Some (fmt (assigned_team t) @ '' - ESCALATED'')"
    by (simp add: t1_def)
  have a2: "assigned_team t2
              = Some (fmt (assigned_team t) @ '' - ESCALATED'' @ '' - ESCALATED'')"
    by (simp add: t2_def a1 fmt_def)
  have ne: "t2 \<noteq> t1"
  proof
    assume "t2 = t1"
    then have "assigned_team t2 = assigned_team t1" by simp
    then show False by (simp add: a1 a2)
  qed
  have s: "status t1 = ESCALATED" "status t2 = ESCALATED"
    by (simp_all add: t1_def t2_def)
  show ?thesis
    using e1 e2 r1 r2 a1 a2 ne s by blast
qed

theorem escalate_ticket_appends_witness:
  "\<exists>db1 t1 db2 t2.
     escalate_ticket
       \<lparr>rows = Map.empty(1 \<mapsto>
          \<lparr>customer_email = ''a@example.com'', subject = ''Outage'', body = ''All down'',
           source = ''gmail'', intent = Some TECHNICAL_ISSUE, urgency = Some CRITICAL,
           confidence_score = Some 0.75, ai_reply = None, final_reply = None,
           assigned_team = Some (route_ticket ''technical_issue'' ''critical''),
           status = ESCALATED\<rparr>),
        next_id = 2\<rparr> 1 = Inr (db1, t1)
   \<and> escalate_ticket db1 1 = Inr (db2, t2)
   \<and> assigned_team t1 = Some ''Tech Support - ESCALATED - ESCALATED''
   \<and> assigned_team t2 = Some ''Tech Support - ESCALATED - ESCALATED - ESCALATED''"
proof -
  let ?t = "\<lparr>customer_email = ''a@example.com'', subject = ''Outage'', body = ''All down'',
           source = ''gmail'', intent = Some TECHNICAL_ISSUE, urgency = Some CRITICAL,
           confidence_score = Some 0.75, ai_reply = None, final_reply = None,
           assigned_team = Some (route_ticket ''technical_issue'' ''critical''),
           status = ESCALATED\<rparr>"
  let ?db = "\<lparr>rows = Map.empty(1 \<mapsto> ?t), next_id = 2\<rparr>"
  have h: "rows ?db 1 = Some ?t" by simp
  have team: "fmt (assigned_team ?t) = ''Tech Support - ESCALATED''"
    by (simp add: fmt_def route_ticket_def dict_get_def INTENT_TEAM_MAP_def)
  from escalate_ticket_appends [OF h] obtain db1 t1 db2 t2 where
    "escalate_ticket ?db 1 = Inr (db1, t1)" "escalate_ticket db1 1 = Inr (db2, t2)"
    "assigned_team t1 = Some (fmt (assigned_team ?t) @ '' - ESCALATED'')"
    "assigned_team t2 = Some (fmt (assigned_team ?t) @ '' - ESCALATED'' @ '' - ESCALATED'')"
    by blast
  then have "escalate_ticket ?db 1 = Inr (db1, t1) \<and> escalate_ticket db1 1 = Inr (db2, t2)
    \<and> assigned_team t1 = Some ''Tech Support - ESCALATED - ESCALATED''
    \<and> assigned_team t2 = Some ''Tech Support - ESCALATED - ESCALATED - ESCALATED''"
    unfolding team by simp
  then show ?thesis by blast
qed

section \<open>Properties of the ingestion loop\<close>

lemma ingest_loop_count:
  "snd (ingest_loop cfg llm_json llm tds db n) = n + length tds"
  by (induction tds arbitrary: db n) simp_all

lemma ingest_loop_rows:
  "rows (fst (ingest_loop cfg llm_json llm tds db n)) k =
     (if next_id db \<le> k \<and> k < next_id db + length tds
      then Some (process_email cfg llm_json llm (tds ! (k - next_id db)))
      else rows db k)"
proof (induction tds arbitrary: db n)
  case Nil
  then show ?case by auto
next
  case (Cons td tds)
  show ?case
    by (auto simp add: Cons.IH db_add_def nth_Cons' Suc_diff_le)
qed

lemma process_email_classify_fails:
  "classify_ticket llm_json (subject td) (body td) = Inl e \<Longrightarrow>
   status (process_email cfg llm_json llm td) = ESCALATED"
  by (simp add: process_email_def new_ticket_def)

lemma process_email_reply_fails:
  "classify_ticket llm_json (subject td) (body td) = Inr c \<Longrightarrow>
   generate_reply llm (subject td) (body td)
     (IntentType_value (cls_intent c)) (UrgencyLevel_value (cls_urgency c)) = Inl e \<Longrightarrow>
   status (process_email cfg llm_json llm td) = ESCALATED"
  by (simp add: process_email_def new_ticket_def)

text \<open>
  C9. For a non-empty batch of fetched emails, \<^verbatim>\<open>ingest_tickets\<close> returns normally with
  every email counted, and every email has its ticket in the table, in order. Where the
  classification or the reply generation of an email raises, its ticket is stored with
  status ESCALATED; the exception stays inside the iteration and the emails after it are
  processed like any other. (Routing and the escalation policy have no failing branch.)
\<close>

theorem ingest_tickets_isolates_failures:
  assumes "tds \<noteq> []"
  shows "\<exists>db'. ingest_tickets cfg (Inr tds) llm_json llm db = Inr (Processed (length tds), db')
     \<and> (\<forall>i<length tds.
           rows db' (next_id db + i) = Some (process_email cfg llm_json llm (tds ! i))
         \<and> ((\<exists>e. classify_ticket llm_json (subject (tds ! i)) (body (tds ! i)) = Inl e)
              \<or> (\<exists>c e. classify_ticket llm_json (subject (tds ! i)) (body (tds ! i)) = Inr c
                   \<and> generate_reply llm (subject (tds ! i)) (body (tds ! i))
                        (IntentType_value (cls_intent c))
                        (UrgencyLevel_value (cls_urgency c)) = Inl e)
            \<longrightarrow> (\<exists>t. rows db' (next_id db + i) = Some t \<and> status t = ESCALATED)))"
proof -
  define res where "res = ingest_loop cfg llm_json llm tds db 0"
  have r: "ingest_tickets cfg (Inr tds) llm_json llm db = Inr (Processed (snd res), fst res)"
    using assms by (simp add: ingest_tickets_def res_def split: prod.splits)
  have n: "snd res = length tds"
    by (simp add: res_def ingest_loop_count)
  have rows: "rows (fst res) (next_id db + i) = Some (process_email cfg llm_json llm (tds ! i))"
    if "i < length tds" for i
    using that by (simp add: res_def ingest_loop_rows)
  have esc: "status (process_email cfg llm_json llm td) = ESCALATED"
    if "(\<exists>e. classify_ticket llm_json (subject td) (body td) = Inl e)
        \<or> (\<exists>c e. classify_ticket llm_json (subject td) (body td) = Inr c
              \<and> generate_reply llm (subject td) (body td)
                   (IntentType_value (cls_intent c))
                   (UrgencyLevel_value (cls_urgency c)) = Inl e)" for td :: TicketBase
    using that process_email_classify_fails process_email_reply_fails by blast
  show ?thesis
  proof (intro exI [of _ "fst res"] conjI allI impI)
    show "ingest_tickets cfg (Inr tds) llm_json llm db = Inr (Processed (length tds), fst res)"
      using r n by simp
  next
    fix i assume "i < length tds"
    then show "rows (fst res) (next_id db + i) = Some (process_email cfg llm_json llm (tds ! i))"
      by (rule rows)
  next
    fix i
    assume i: "i < length tds"
      and f: "(\<exists>e. classify_ticket llm_json (subject (tds ! i)) (body (tds ! i)) = Inl e)
              \<or> (\<exists>c e. classify_ticket llm_json (subject (tds ! i)) (body (tds ! i)) = Inr c
                   \<and> generate_reply llm (subject (tds ! i)) (body (tds ! i))
                        (IntentType_value (cls_intent c))
                        (UrgencyLevel_value (cls_urgency c)) = Inl e)"
    show "\<exists>t. rows (fst res) (next_id db + i) = Some t \<and> status t = ESCALATED"
      using rows [OF i] esc [OF f] by simp
  qed
qed

theorem ingest_tickets_isolates_failures_witness:
  "\<exists>db'. ingest_tickets default_settings
      (Inr [\<lparr>customer_email = ''a@example.com'', subject = ''Invoice'', body = ''Please send it'',
             source = ''gmail''\<rparr>,
            \<lparr>customer_email = ''b@example.com'', subject = ''bad'', body = ''???'',
             source = ''gmail''\<rparr>,
            \<lparr>customer_email = ''c@example.com'', subject = ''Receipt'', body = ''Where is it'',
             source = ''gmail''\<rparr>])
      (\<lambda>s b. if s = ''bad'' then Inl (Exception ''timeout'')
             else Inr \<lparr>raw_intent = ''billing'', raw_urgency = ''low'', raw_confidence = 0.9\<rparr>)
      (\<lambda>s b i u. Inr ''Thank you for reaching out; our team is looking into this now.'')
      \<lparr>rows = Map.empty, next_id = 1\<rparr> = Inr (Processed 3, db')
    \<and> (\<exists>t. rows db' 2 = Some t \<and> status t = ESCALATED)
    \<and> (\<exists>t. rows db' 3 = Some t \<and> status t = PENDING_REVIEW
            \<and> assigned_team t = Some ''Finance Team'')"
proof -
  let ?tds = "[\<lparr>customer_email = ''a@example.com'', subject = ''Invoice'', body = ''Please send it'',
             source = ''gmail''\<rparr>,
            \<lparr>customer_email = ''b@example.com'', subject = ''bad'', body = ''???'',
             source = ''gmail''\<rparr>,
            \<lparr>customer_email = ''c@example.com'', subject = ''Receipt'', body = ''Where is it'',
             source = ''gmail''\<rparr>]"
  let ?J = "(\<lambda>s b. if s = ''bad'' then Inl (Exception ''timeout'')
             else Inr \<lparr>raw_intent = ''billing'', raw_urgency = ''low'', raw_confidence = 0.9\<rparr>)
            :: string \<Rightarrow> string \<Rightarrow> error + RawClassification"
  let ?L = "(\<lambda>s b i u. Inr ''Thank you for reaching out; our team is looking into this now.'')
            :: string \<Rightarrow> string \<Rightarrow> string \<Rightarrow> string \<Rightarrow> error + string"
  let ?db = "\<lparr>rows = Map.empty, next_id = 1\<rparr> :: database"
  have ne: "?tds \<noteq> []" by simp
  from ingest_tickets_isolates_failures [OF ne, of default_settings ?J ?L ?db]
  obtain db' where
    r: "ingest_tickets default_settings (Inr ?tds) ?J ?L ?db = Inr (Processed (length ?tds), db')"
    and a: "\<And>i. i < length ?tds \<Longrightarrow>
           rows db' (next_id ?db + i) = Some (process_email default_settings ?J ?L (?tds ! i))
         \<and> ((\<exists>e. classify_ticket ?J (subject (?tds ! i)) (body (?tds ! i)) = Inl e)
              \<or> (\<exists>c e. classify_ticket ?J (subject (?tds ! i)) (body (?tds ! i)) = Inr c
                   \<and> generate_reply ?L (subject (?tds ! i)) (body (?tds ! i))
                        (IntentType_value (cls_intent c))
                        (UrgencyLevel_value (cls_urgency c)) = Inl e)
            \<longrightarrow> (\<exists>t. rows db' (next_id ?db + i) = Some t \<and> status t = ESCALATED))"
    by blast
  have f: "classify_ticket ?J ''bad'' ''???'' = Inl (Exception ''Classification error'')"
    by (simp add: classify_ticket_def)
  have e2: "\<exists>t. rows db' 2 = Some t \<and> status t = ESCALATED"
  proof -
    have "rows db' 2 = Some (process_email default_settings ?J ?L (?tds ! 1))"
      using a [of 1] by (simp add: numeral_2_eq_2)
    moreover have "status (process_email default_settings ?J ?L (?tds ! 1)) = ESCALATED"
      using process_email_classify_fails [of ?J "?tds ! 1", OF _] f by simp
    ultimately show ?thesis by blast
  qed
  have c3: "classify_ticket ?J ''Receipt'' ''Where is it''
      = Inr \<lparr>cls_intent = BILLING, cls_urgency = LOW, cls_confidence = 0.9\<rparr>"
    by (simp add: classify_ticket_def IntentType_of_def UrgencyLevel_of_def)
  let ?td3 = "\<lparr>customer_email = ''c@example.com'', subject = ''Receipt'',
      body = ''Where is it'', source = ''gmail''\<rparr>"
  have p3: "process_email default_settings ?J ?L ?td3 =
     (new_ticket ?td3)\<lparr>intent := Some BILLING, urgency := Some LOW,
        ai_reply := Some ''Thank you for reaching out; our team is looking into this now.'',
        confidence_score := Some (float64 0.85), assigned_team := Some ''Finance Team''\<rparr>"
    using float64_085_bounds
    by (simp add: process_email_def c3 example_generate Let_def should_escalate_def
        default_settings_def route_ticket_def dict_get_def INTENT_TEAM_MAP_def)
  have e3: "\<exists>t. rows db' 3 = Some t \<and> status t = PENDING_REVIEW
            \<and> assigned_team t = Some ''Finance Team''"
  proof -
    have "rows db' 3 = Some (process_email default_settings ?J ?L (?tds ! 2))"
      using a [of 2] by (simp add: numeral_3_eq_3)
    moreover have "status (process_email default_settings ?J ?L (?tds ! 2)) = PENDING_REVIEW"
      "assigned_team (process_email default_settings ?J ?L (?tds ! 2)) = Some ''Finance Team''"
      by (simp_all add: p3 new_ticket_def)
    ultimately show ?thesis by blast
  qed
  show ?thesis
    using r e2 e3 by simp
qed

end
